theory Spec2Isabelle
  imports Complex_Main
begin

section \<open>The viewer of \<open>scripts/minimal.py\<close>\<close>

text \<open>
  A shallow embedding of the transform helpers, the perspective camera, the network and
  mesh objects and \<open>Viewer.add\<close> of \<open>scripts/minimal.py\<close>.

  Python numbers are modelled as mathematical reals: rounding of floating-point
  arithmetic (and the conversion to 32-bit floats on upload) is outside the model.
  A Python exception is a value of \<open>py_error\<close>; a function that can raise returns
  \<open>py_error + 'a\<close>, and one that also changes the OpenGL state returns that result
  together with the state reached when it returned or raised.
\<close>

datatype py_error = ZeroDivisionError | NotImplementedError | KeyError

type_synonym vec = "real \<times> real \<times> real"

type_synonym matrix = "real list list"

subsection \<open>Library functions the script imports\<close>

text \<open>\<open>math.radians\<close>.\<close>

definition radians :: "real \<Rightarrow> real" where
  "radians x = x * pi / 180"

text \<open>
  \<open>compas.geometry\<close>: \<open>subtract_vectors\<close>, \<open>cross_vectors\<close>, \<open>length_vector\<close> and
  \<open>normalize_vector\<close>, which returns a vector of length zero as it is.
\<close>

fun subtract_vectors :: "vec \<Rightarrow> vec \<Rightarrow> vec" where
  "subtract_vectors (u0, u1, u2) (v0, v1, v2) = (u0 - v0, u1 - v1, u2 - v2)"

fun cross_vectors :: "vec \<Rightarrow> vec \<Rightarrow> vec" where
  "cross_vectors (u0, u1, u2) (v0, v1, v2) =
     (u1 * v2 - u2 * v1, u2 * v0 - u0 * v2, u0 * v1 - u1 * v0)"

fun length_vector :: "vec \<Rightarrow> real" where
  "length_vector (x, y, z) = sqrt (x * x + y * y + z * z)"

fun scale_vector :: "vec \<Rightarrow> real \<Rightarrow> vec" where
  "scale_vector (x, y, z) s = (x * s, y * s, z * s)"

definition normalize_vector :: "vec \<Rightarrow> vec" where
  "normalize_vector v =
     (let l = length_vector v
      in if l = 0 then v
         else (case v of (x, y, z) \<Rightarrow> (x / l, y / l, z / l)))"

text \<open>\<open>Transformation.from_matrix\<close> wraps the rows it is given.\<close>

definition from_matrix :: "matrix \<Rightarrow> matrix" where
  "from_matrix m = m"

text \<open>\<open>compas.utilities.flatten\<close> on a list of coordinate triples.\<close>

fun flatten :: "vec list \<Rightarrow> real list" where
  "flatten [] = []"
| "flatten ((x, y, z) # vs) = x # y # z # flatten vs"

subsection \<open>Transform helpers\<close>

text \<open>
  \<open>perspective\<close>: the three divisions raise \<open>ZeroDivisionError\<close> on a zero divisor, in
  the order of the source; there is no other check. The quotient \<open>1.0 / tan(x)\<close> is
  written as \<open>cos x / sin x\<close>: the tangent the source calls is zero where the sine is, and
  there the division raises; where the cosine is zero it is a large finite number, not a
  pole, and its reciprocal is the cotangent there as everywhere else. (The \<open>tan\<close> of HOL
  is zero where the cosine is, so it is not used.) Of the zeros of the sine only a field
  of view of zero is one in floating point as well: at the other multiples of 360 degrees
  the tangent of the source is close to zero and not zero, and nothing is proved there.
\<close>

definition perspective :: "real \<Rightarrow> real \<Rightarrow> real \<Rightarrow> real \<Rightarrow> py_error + matrix" where
  "perspective fov aspect near far =
     (if sin (radians fov / 2) = 0 then Inl ZeroDivisionError
      else let sy = cos (radians fov / 2) / sin (radians fov / 2)
      in if aspect = 0 then Inl ZeroDivisionError
      else let sx = sy / aspect
      in if near - far = 0 then Inl ZeroDivisionError
      else let zz = (far + near) / (near - far);
               zw = 2 * far * near / (near - far)
      in Inr (from_matrix
           [[sx, 0, 0, 0],
            [0, sy, 0, 0],
            [0, 0, zz, zw],
            [0, 0, -1, 0]]))"

definition lookat :: "vec \<Rightarrow> vec \<Rightarrow> vec \<Rightarrow> matrix" where
  "lookat eye target up =
     (let d = normalize_vector (subtract_vectors target eye);
          r = cross_vectors d (normalize_vector up);
          u = cross_vectors r d
      in case (r, u, d, eye) of ((r0, r1, r2), (u0, u1, u2), (d0, d1, d2), (e0, e1, e2)) \<Rightarrow>
         from_matrix
           [[r0, r1, r2, - e0],
            [u0, u1, u2, - e1],
            [- d0, - d1, - d2, - e2],
            [0, 0, 0, 1]])"

subsection \<open>Mouse and camera\<close>

record mouse =
  pos :: "int \<times> int"
  last_pos :: "int \<times> int"

definition dx :: "mouse \<Rightarrow> int" where
  "dx m = fst (pos m) - fst (last_pos m)"

definition dy :: "mouse \<Rightarrow> int" where
  "dy m = snd (pos m) - snd (last_pos m)"

record camera =
  fov :: real
  near :: real
  far :: real
  distance :: real
  target :: vec
  rx :: real
  rz :: real
  tx :: real
  ty :: real
  tz :: real
  zoom_delta :: real
  rotation_delta :: real
  pan_delta :: real

text \<open>
  \<open>PerspectiveCamera.__init__\<close>; the argument \<open>target\<close> is \<open>None\<close> by default, and
  \<open>target or [0, 0, 0]\<close> then gives the origin.
\<close>

definition PerspectiveCamera :: "real \<Rightarrow> real \<Rightarrow> real \<Rightarrow> vec option \<Rightarrow> real \<Rightarrow> camera" where
  "PerspectiveCamera fov0 near0 far0 target0 distance0 =
     \<lparr> fov = fov0, near = near0, far = far0, distance = distance0,
       target = (case target0 of None \<Rightarrow> (0, 0, 0) | Some t \<Rightarrow> t),
       rx = - 60, rz = - 30, tx = 0, ty = 0, tz = 0,
       zoom_delta = 0.05, rotation_delta = 1, pan_delta = 0.1 \<rparr>"

definition rotate :: "mouse \<Rightarrow> camera \<Rightarrow> camera" where
  "rotate m c =
     (let dx0 = real_of_int (dx m);
          dy0 = real_of_int (dy m);
          c1 = c\<lparr>rx := rx c + rotation_delta c * dy0\<rparr>
      in c1\<lparr>rz := rz c1 + rotation_delta c1 * dx0\<rparr>)"

definition pan :: "mouse \<Rightarrow> camera \<Rightarrow> camera" where
  "pan m c =
     (let sinrz = sin (radians (rz c));
          cosrz = cos (radians (rz c));
          sinrx = sin (radians (rx c));
          cosrx = cos (radians (rx c));
          dx0 = real_of_int (dx m) * cosrz - real_of_int (dy m) * sinrz * cosrx;
          dy0 = real_of_int (dy m) * cosrz * cosrx + real_of_int (dx m) * sinrz;
          dz0 = real_of_int (dy m) * sinrx * pan_delta c;
          dx1 = dx0 * (distance c / 10);
          dy1 = dy0 * (distance c / 10);
          dz1 = dz0 * (distance c / 10);
          c1 = c\<lparr>tx := tx c + pan_delta c * dx1\<rparr>;
          c2 = c1\<lparr>ty := ty c1 - pan_delta c1 * dy1\<rparr>;
          c3 = c2\<lparr>target := (case target c2 of (t0, t1, t2) \<Rightarrow> (- tx c2, t1, t2))\<rparr>;
          c4 = c3\<lparr>target := (case target c3 of (t0, t1, t2) \<Rightarrow> (t0, - ty c3, t2))\<rparr>;
          c5 = c4\<lparr>target := (case target c4 of (t0, t1, t2) \<Rightarrow> (t0, t1, t2 - dz1))\<rparr>
      in c5\<lparr>distance := distance c5 - dz1\<rparr>)"

definition zoom :: "real \<Rightarrow> camera \<Rightarrow> camera" where
  "zoom steps c = c\<lparr>distance := distance c - steps * zoom_delta c * distance c\<rparr>"

text \<open>The operations on a camera, and a run of them from a state.\<close>

datatype camera_op = Rotate mouse | Pan mouse | Zoom real

fun apply_camera_op :: "camera_op \<Rightarrow> camera \<Rightarrow> camera" where
  "apply_camera_op (Rotate m) c = rotate m c"
| "apply_camera_op (Pan m) c = pan m c"
| "apply_camera_op (Zoom steps) c = zoom steps c"

fun run_camera :: "camera_op list \<Rightarrow> camera \<Rightarrow> camera" where
  "run_camera [] c = c"
| "run_camera (x # xs) c = run_camera xs (apply_camera_op x c)"

subsection \<open>The OpenGL state the objects allocate in\<close>

text \<open>
  Of the OpenGL context the model keeps what the script's calls write: the names of the
  generated vertex-array objects, the generated buffers with the data uploaded to them,
  the two bindings, and per vertex-array object the enabled attribute locations and the
  buffer each attribute reads from. A generated name is one not in use.
\<close>

record gl_state =
  vertex_arrays :: "nat list"
  buffers :: "(nat \<times> real list) list"
  vertex_array_binding :: nat
  array_buffer_binding :: nat
  enabled_attribs :: "(nat \<times> nat) list"
  attrib_pointers :: "((nat \<times> nat) \<times> nat) list"
  point_size :: real

definition fresh_name :: "nat list \<Rightarrow> nat" where
  "fresh_name ns = Suc (fold max ns 0)"

definition glGenVertexArrays :: "gl_state \<Rightarrow> nat \<times> gl_state" where
  "glGenVertexArrays g =
     (let n = fresh_name (vertex_arrays g)
      in (n, g\<lparr>vertex_arrays := vertex_arrays g @ [n]\<rparr>))"

definition glGenBuffers :: "gl_state \<Rightarrow> nat \<times> gl_state" where
  "glGenBuffers g =
     (let n = fresh_name (map fst (buffers g))
      in (n, g\<lparr>buffers := buffers g @ [(n, [])]\<rparr>))"

definition glBindBuffer :: "nat \<Rightarrow> gl_state \<Rightarrow> gl_state" where
  "glBindBuffer b g = g\<lparr>array_buffer_binding := b\<rparr>"

definition glBufferData :: "real list \<Rightarrow> gl_state \<Rightarrow> gl_state" where
  "glBufferData cdata g =
     g\<lparr>buffers := map (\<lambda>(n, d). if n = array_buffer_binding g then (n, cdata) else (n, d))
                       (buffers g)\<rparr>"

definition glBindVertexArray :: "nat \<Rightarrow> gl_state \<Rightarrow> gl_state" where
  "glBindVertexArray v g = g\<lparr>vertex_array_binding := v\<rparr>"

definition glEnableVertexAttribArray :: "nat \<Rightarrow> gl_state \<Rightarrow> gl_state" where
  "glEnableVertexAttribArray i g =
     g\<lparr>enabled_attribs := (vertex_array_binding g, i) # enabled_attribs g\<rparr>"

definition glVertexAttribPointer :: "nat \<Rightarrow> gl_state \<Rightarrow> gl_state" where
  "glVertexAttribPointer i g =
     g\<lparr>attrib_pointers :=
         ((vertex_array_binding g, i), array_buffer_binding g) # attrib_pointers g\<rparr>"

definition glPointSize :: "real \<Rightarrow> gl_state \<Rightarrow> gl_state" where
  "glPointSize s g = g\<lparr>point_size := s\<rparr>"

definition buffer_data :: "gl_state \<Rightarrow> nat \<Rightarrow> real list option" where
  "buffer_data g n = map_of (buffers g) n"

definition make_vertex_buffer :: "real list \<Rightarrow> gl_state \<Rightarrow> nat \<times> gl_state" where
  "make_vertex_buffer data g =
     (let (vbo, g1) = glGenBuffers g;
          g2 = glBindBuffer vbo g1;
          g3 = glBufferData data g2
      in (vbo, g3))"

text \<open>
  A computation in the OpenGL state that may raise: the state it reached comes back in
  both cases.
\<close>

type_synonym 'a gl = "gl_state \<Rightarrow> (py_error + 'a) \<times> gl_state"

definition gl_bind :: "'a gl \<Rightarrow> ('a \<Rightarrow> 'b gl) \<Rightarrow> 'b gl" where
  "gl_bind f k g = (case f g of (Inl e, g1) \<Rightarrow> (Inl e, g1) | (Inr x, g1) \<Rightarrow> k x g1)"

definition gl_call :: "(gl_state \<Rightarrow> gl_state) \<Rightarrow> unit gl" where
  "gl_call f g = (Inr (), f g)"

subsection \<open>Geometry the objects read\<close>

text \<open>
  The queries of a \<open>compas\<close> network and mesh that the script uses: the keys in the
  order the data structure enumerates them, and the \<open>xyz\<close> attribute of a key.
\<close>

record network =
  network_nodes :: "nat list"
  network_node_attributes :: "nat \<Rightarrow> vec"
  network_edges :: "(nat \<times> nat) list"

record mesh =
  mesh_vertices :: "nat list"
  mesh_vertex_attributes :: "nat \<Rightarrow> vec"
  mesh_edges :: "(nat \<times> nat) list"
  mesh_faces :: "nat list"
  mesh_face_vertices :: "nat \<Rightarrow> nat list"

text \<open>Subscript reads of a dict, in order; a missing key raises \<open>KeyError\<close>.\<close>

fun getitems :: "('k \<rightharpoonup> 'v) \<Rightarrow> 'k list \<Rightarrow> py_error + 'v list" where
  "getitems d [] = Inr []"
| "getitems d (k # ks) =
     (case d k of
        None \<Rightarrow> Inl KeyError
      | Some v \<Rightarrow> (case getitems d ks of Inl e \<Rightarrow> Inl e | Inr vs \<Rightarrow> Inr (v # vs)))"

text \<open>The dict of two buffer names a pass property returns.\<close>

record pass_buffers =
  vertices :: nat
  colors :: nat

definition upload_pass :: "vec list \<Rightarrow> vec list \<Rightarrow> pass_buffers gl" where
  "upload_pass vs cs g =
     (let (vb, g1) = make_vertex_buffer (flatten vs) g;
          (cb, g2) = make_vertex_buffer (flatten cs) g1
      in (Inr \<lparr>vertices = vb, colors = cb\<rparr>, g2))"

subsection \<open>NetworkObject\<close>

text \<open>The dict \<open>_vao\<close> of a network object: one vertex-array object per pass.\<close>

record network_vao =
  vao_network_edges :: nat
  vao_nodes :: nat

record network_object =
  n_data :: network
  n_vao :: "network_vao option"
  n_name :: "string option"
  n_is_selected :: bool
  n_show_nodes :: bool
  n_show_edges :: bool

definition NetworkObject :: "network \<Rightarrow> string option \<Rightarrow> bool \<Rightarrow> bool \<Rightarrow> bool \<Rightarrow> network_object" where
  "NetworkObject data name is_selected show_nodes show_edges =
     \<lparr> n_data = data, n_vao = None, n_name = name, n_is_selected = is_selected,
       n_show_nodes = show_nodes, n_show_edges = show_edges \<rparr>"

definition default_color_nodes :: vec where
  "default_color_nodes = (0.1, 0.1, 0.1)"

definition network_default_color_edges :: vec where
  "network_default_color_edges = (0.4, 0.4, 0.4)"

definition node_xyz :: "network_object \<Rightarrow> (nat \<rightharpoonup> vec)" where
  "node_xyz obj =
     map_of (map (\<lambda>node. (node, network_node_attributes (n_data obj) node))
                 (network_nodes (n_data obj)))"

fun nodes_loop :: "(nat \<rightharpoonup> vec) \<Rightarrow> vec \<Rightarrow> nat list \<Rightarrow> vec list \<times> vec list \<Rightarrow>
    py_error + vec list \<times> vec list" where
  "nodes_loop xyzs color [] (vs, cs) = Inr (vs, cs)"
| "nodes_loop xyzs color (node # rest) (vs, cs) =
     (case getitems xyzs [node] of
        Inl e \<Rightarrow> Inl e
      | Inr ps \<Rightarrow> nodes_loop xyzs color rest (vs @ ps, cs @ [color]))"

fun edges_loop :: "(nat \<rightharpoonup> vec) \<Rightarrow> vec \<Rightarrow> (nat \<times> nat) list \<Rightarrow> vec list \<times> vec list \<Rightarrow>
    py_error + vec list \<times> vec list" where
  "edges_loop xyzs color [] (es, cs) = Inr (es, cs)"
| "edges_loop xyzs color ((u, v) # rest) (es, cs) =
     (case getitems xyzs [u, v] of
        Inl e \<Rightarrow> Inl e
      | Inr ps \<Rightarrow> edges_loop xyzs color rest (es @ ps, cs @ [color, color]))"

definition NetworkObject_nodes :: "network_object \<Rightarrow> pass_buffers gl" where
  "NetworkObject_nodes obj g =
     (case nodes_loop (node_xyz obj) default_color_nodes (network_nodes (n_data obj)) ([], []) of
        Inl e \<Rightarrow> (Inl e, g)
      | Inr (vs, cs) \<Rightarrow> upload_pass vs cs g)"

definition NetworkObject_edges :: "network_object \<Rightarrow> pass_buffers gl" where
  "NetworkObject_edges obj g =
     (case edges_loop (node_xyz obj) network_default_color_edges (network_edges (n_data obj))
             ([], []) of
        Inl e \<Rightarrow> (Inl e, g)
      | Inr (es, cs) \<Rightarrow> upload_pass es cs g)"

text \<open>
  One pass of \<open>init\<close>: bind the pass's vertex-array object, then for each of the two
  attributes enable it, read the pass property (which builds and uploads both buffers
  again at each read), bind the buffer of that attribute and set the pointer.
\<close>

definition init_pass :: "nat \<Rightarrow> pass_buffers gl \<Rightarrow> unit gl" where
  "init_pass vao prop =
     gl_bind (gl_call (glBindVertexArray vao)) (\<lambda>_.
     gl_bind (gl_call (glEnableVertexAttribArray 0)) (\<lambda>_.
     gl_bind prop (\<lambda>p0.
     gl_bind (gl_call (glBindBuffer (vertices p0))) (\<lambda>_.
     gl_bind (gl_call (glVertexAttribPointer 0)) (\<lambda>_.
     gl_bind (gl_call (glEnableVertexAttribArray 1)) (\<lambda>_.
     gl_bind prop (\<lambda>p1.
     gl_bind (gl_call (glBindBuffer (colors p1))) (\<lambda>_.
     gl_call (glVertexAttribPointer 1)))))))))"

definition NetworkObject_init :: "network_object \<Rightarrow> gl_state \<Rightarrow>
    (py_error + unit) \<times> network_object \<times> gl_state" where
  "NetworkObject_init obj g =
     (let (e, g1) = glGenVertexArrays g;
          (n, g2) = glGenVertexArrays g1;
          obj1 = obj\<lparr>n_vao := Some \<lparr>vao_network_edges = e, vao_nodes = n\<rparr>\<rparr>;
          (r, g3) =
            gl_bind (init_pass e (NetworkObject_edges obj1)) (\<lambda>_.
            gl_bind (gl_call (glPointSize 10)) (\<lambda>_.
            gl_bind (init_pass n (NetworkObject_nodes obj1)) (\<lambda>_.
            gl_call (glBindVertexArray 0)))) g2
      in (r, obj1, g3))"

subsection \<open>MeshObject\<close>

record mesh_vao =
  vao_front :: nat
  vao_back :: nat
  vao_mesh_edges :: nat
  vao_vertices :: nat

record mesh_object =
  m_mesh :: mesh
  m_vao :: "mesh_vao option"
  m_name :: "string option"
  m_is_selected :: bool
  m_show_vertices :: bool
  m_show_edges :: bool
  m_show_faces :: bool

definition MeshObject :: "mesh \<Rightarrow> string option \<Rightarrow> bool \<Rightarrow> bool \<Rightarrow> bool \<Rightarrow> bool \<Rightarrow> mesh_object" where
  "MeshObject data name is_selected show_vertices show_edges show_faces =
     \<lparr> m_mesh = data, m_vao = None, m_name = name, m_is_selected = is_selected,
       m_show_vertices = show_vertices, m_show_edges = show_edges,
       m_show_faces = show_faces \<rparr>"

definition default_color_vertices :: vec where
  "default_color_vertices = (0.1, 0.1, 0.1)"

definition default_color_edges :: vec where
  "default_color_edges = (0.2, 0.2, 0.2)"

definition default_color_front :: vec where
  "default_color_front = (0.8, 0.8, 0.8)"

definition default_color_back :: vec where
  "default_color_back = (1.0, 0.5, 0.7)"

definition vertex_xyz :: "mesh_object \<Rightarrow> (nat \<rightharpoonup> vec)" where
  "vertex_xyz obj =
     map_of (map (\<lambda>vertex. (vertex, mesh_vertex_attributes (m_mesh obj) vertex))
                 (mesh_vertices (m_mesh obj)))"

text \<open>
  The loops of the \<open>vertices\<close> and \<open>edges\<close> properties have the text of the loops of the
  network's \<open>nodes\<close> and \<open>edges\<close>, over the vertices and edges of the mesh.
\<close>

definition MeshObject_vertices :: "mesh_object \<Rightarrow> pass_buffers gl" where
  "MeshObject_vertices obj g =
     (case nodes_loop (vertex_xyz obj) default_color_vertices (mesh_vertices (m_mesh obj))
             ([], []) of
        Inl e \<Rightarrow> (Inl e, g)
      | Inr (vs, cs) \<Rightarrow> upload_pass vs cs g)"

definition MeshObject_edges :: "mesh_object \<Rightarrow> pass_buffers gl" where
  "MeshObject_edges obj g =
     (case edges_loop (vertex_xyz obj) default_color_edges (mesh_edges (m_mesh obj)) ([], []) of
        Inl e \<Rightarrow> (Inl e, g)
      | Inr (es, cs) \<Rightarrow> upload_pass es cs g)"

text \<open>
  The body of the loop over the faces, the same text in \<open>front\<close> and \<open>back\<close>: a
  triangle is appended as it is, a quadrilateral \<open>a, b, c, d\<close> as \<open>a, b, c\<close> and
  \<open>a, c, d\<close>, and any other number of vertices raises \<open>NotImplementedError\<close>.
\<close>

fun face_body :: "(nat \<rightharpoonup> vec) \<Rightarrow> vec \<Rightarrow> nat list \<Rightarrow> vec list \<times> vec list \<Rightarrow>
    py_error + vec list \<times> vec list" where
  "face_body xyzs color [a, b, c] (fs, cs) =
     (case getitems xyzs [a, b, c] of
        Inl e \<Rightarrow> Inl e
      | Inr ps \<Rightarrow> Inr (fs @ ps, cs @ [color, color, color]))"
| "face_body xyzs color [a, b, c, d] (fs, cs) =
     (case getitems xyzs [a, b, c, a, c, d] of
        Inl e \<Rightarrow> Inl e
      | Inr ps \<Rightarrow> Inr (fs @ ps, cs @ [color, color, color, color, color, color]))"
| "face_body xyzs color vs (fs, cs) = Inl NotImplementedError"

fun front_loop :: "mesh \<Rightarrow> (nat \<rightharpoonup> vec) \<Rightarrow> vec \<Rightarrow> nat list \<Rightarrow> vec list \<times> vec list \<Rightarrow>
    py_error + vec list \<times> vec list" where
  "front_loop m xyzs color [] acc = Inr acc"
| "front_loop m xyzs color (face # rest) acc =
     (case face_body xyzs color (mesh_face_vertices m face) acc of
        Inl e \<Rightarrow> Inl e
      | Inr acc1 \<Rightarrow> front_loop m xyzs color rest acc1)"

fun back_loop :: "mesh \<Rightarrow> (nat \<rightharpoonup> vec) \<Rightarrow> vec \<Rightarrow> nat list \<Rightarrow> vec list \<times> vec list \<Rightarrow>
    py_error + vec list \<times> vec list" where
  "back_loop m xyzs color [] acc = Inr acc"
| "back_loop m xyzs color (face # rest) acc =
     (case face_body xyzs color (rev (mesh_face_vertices m face)) acc of
        Inl e \<Rightarrow> Inl e
      | Inr acc1 \<Rightarrow> back_loop m xyzs color rest acc1)"

definition MeshObject_front :: "mesh_object \<Rightarrow> pass_buffers gl" where
  "MeshObject_front obj g =
     (case front_loop (m_mesh obj) (vertex_xyz obj) default_color_front
             (mesh_faces (m_mesh obj)) ([], []) of
        Inl e \<Rightarrow> (Inl e, g)
      | Inr (fs, cs) \<Rightarrow> upload_pass fs cs g)"

definition MeshObject_back :: "mesh_object \<Rightarrow> pass_buffers gl" where
  "MeshObject_back obj g =
     (case back_loop (m_mesh obj) (vertex_xyz obj) default_color_back
             (mesh_faces (m_mesh obj)) ([], []) of
        Inl e \<Rightarrow> (Inl e, g)
      | Inr (fs, cs) \<Rightarrow> upload_pass fs cs g)"

definition MeshObject_init :: "mesh_object \<Rightarrow> gl_state \<Rightarrow>
    (py_error + unit) \<times> mesh_object \<times> gl_state" where
  "MeshObject_init obj g =
     (let (f, g1) = glGenVertexArrays g;
          (b, g2) = glGenVertexArrays g1;
          (e, g3) = glGenVertexArrays g2;
          (v, g4) = glGenVertexArrays g3;
          obj1 = obj\<lparr>m_vao := Some \<lparr>vao_front = f, vao_back = b,
                                     vao_mesh_edges = e, vao_vertices = v\<rparr>\<rparr>;
          (r, g5) =
            gl_bind (init_pass f (MeshObject_front obj1)) (\<lambda>_.
            gl_bind (init_pass b (MeshObject_back obj1)) (\<lambda>_.
            gl_bind (init_pass e (MeshObject_edges obj1)) (\<lambda>_.
            gl_bind (gl_call (glPointSize 10)) (\<lambda>_.
            gl_bind (init_pass v (MeshObject_vertices obj1)) (\<lambda>_.
            gl_call (glBindVertexArray 0)))))) g4
      in (r, obj1, g5))"

subsection \<open>Viewer.add\<close>

text \<open>
  \<open>DTYPE_OTYPE\<close> maps the type of a geometry object to the class that draws it; the
  objects of the view are a dict keyed by the geometry object. The right-hand side of the
  assignment in \<open>add\<close> is evaluated first: the subscript read of the registry, then the
  call of the class found.
\<close>

fun dict_set :: "('k \<times> 'v) list \<Rightarrow> 'k \<Rightarrow> 'v \<Rightarrow> ('k \<times> 'v) list" where
  "dict_set [] k v = [(k, v)]"
| "dict_set ((k0, v0) # kvs) k v =
     (if k0 = k then (k0, v) # kvs else (k0, v0) # dict_set kvs k v)"

record ('d, 'o) view =
  objects :: "('d \<times> 'o) list"

definition add :: "('t \<rightharpoonup> ('d \<Rightarrow> 'k \<Rightarrow> py_error + 'o)) \<Rightarrow> ('d \<Rightarrow> 't) \<Rightarrow> 'd \<Rightarrow> 'k \<Rightarrow>
    ('d, 'o) view \<Rightarrow> (py_error + unit) \<times> ('d, 'o) view" where
  "add registry type_of data kwargs v =
     (case registry (type_of data) of
        None \<Rightarrow> (Inl KeyError, v)
      | Some otype \<Rightarrow>
          (case otype data kwargs of
             Inl e \<Rightarrow> (Inl e, v)
           | Inr obj \<Rightarrow> (Inr (), v\<lparr>objects := dict_set (objects v) data obj\<rparr>)))"

text \<open>
  The registry as the main block of the script fills it, over geometry objects that
  carry their type and an identity; the class called is kept with the object.
\<close>

datatype dtype = Box | Sphere | Torus | Mesh | Network | Pointcloud

datatype otype = ShapeObject_class | MeshObject_class | NetworkObject_class

definition DTYPE_OTYPE :: "dtype \<rightharpoonup> (dtype \<times> nat \<Rightarrow> unit \<Rightarrow> py_error + otype \<times> dtype \<times> nat)" where
  "DTYPE_OTYPE =
     [Box \<mapsto> (\<lambda>data kwargs. Inr (ShapeObject_class, data)),
      Sphere \<mapsto> (\<lambda>data kwargs. Inr (ShapeObject_class, data)),
      Torus \<mapsto> (\<lambda>data kwargs. Inr (ShapeObject_class, data)),
      Mesh \<mapsto> (\<lambda>data kwargs. Inr (MeshObject_class, data)),
      Network \<mapsto> (\<lambda>data kwargs. Inr (NetworkObject_class, data))]"

subsection \<open>What the specification names\<close>

text \<open>
  The standard symmetric perspective matrix of OpenGL, for a vertical field of view in
  degrees: its scale is the cotangent of half the field of view.
\<close>

definition standard_perspective :: "real \<Rightarrow> real \<Rightarrow> real \<Rightarrow> real \<Rightarrow> matrix" where
  "standard_perspective fovy aspect zNear zFar =
     [[cot (radians fovy / 2) / aspect, 0, 0, 0],
      [0, cot (radians fovy / 2), 0, 0],
      [0, 0, (zFar + zNear) / (zNear - zFar), 2 * zFar * zNear / (zNear - zFar)],
      [0, 0, - 1, 0]]"

text \<open>
  The world-space displacement of a pan: the screen delta decomposed with the
  trigonometry of \<open>rz\<close> and \<open>rx\<close>, scaled by \<open>distance / 10\<close> and the pan step.
\<close>

definition pan_displacement :: "mouse \<Rightarrow> camera \<Rightarrow> vec" where
  "pan_displacement m c =
     (let s = pan_delta c * (distance c / 10);
          mx = real_of_int (dx m);
          my = real_of_int (dy m)
      in ((mx * cos (radians (rz c)) - my * sin (radians (rz c)) * cos (radians (rx c))) * s,
          (my * cos (radians (rz c)) * cos (radians (rx c)) + mx * sin (radians (rz c))) * s,
          my * sin (radians (rx c)) * s))"

text \<open>
  The triangulation policy: a triangle is itself, a quadrilateral \<open>(a, b, c, d)\<close> is the
  two triangles \<open>(a, b, c)\<close> and \<open>(a, c, d)\<close>. The front pass draws the triangles of the
  faces, the back pass those of the faces with their vertices in reverse order.
\<close>

fun triangles :: "'a list \<Rightarrow> ('a \<times> 'a \<times> 'a) list" where
  "triangles [a, b, c] = [(a, b, c)]"
| "triangles [a, b, c, d] = [(a, b, c), (a, c, d)]"
| "triangles vs = []"

fun corners :: "('a \<times> 'a \<times> 'a) list \<Rightarrow> 'a list" where
  "corners [] = []"
| "corners ((a, b, c) # ts) = a # b # c # corners ts"

definition front_triangles :: "mesh \<Rightarrow> (nat \<times> nat \<times> nat) list" where
  "front_triangles m =
     concat (map (\<lambda>face. triangles (mesh_face_vertices m face)) (mesh_faces m))"

definition back_triangles :: "mesh \<Rightarrow> (nat \<times> nat \<times> nat) list" where
  "back_triangles m =
     concat (map (\<lambda>face. triangles (rev (mesh_face_vertices m face))) (mesh_faces m))"

text \<open>
  The vertices of every face, and the ends of every edge, are vertices of the mesh
  (nodes of the network): what the \<open>compas\<close> data structures keep.
\<close>

definition faces_closed :: "mesh \<Rightarrow> bool" where
  "faces_closed m =
     list_all (\<lambda>face. list_all (\<lambda>v. v \<in> set (mesh_vertices m)) (mesh_face_vertices m face))
       (mesh_faces m)"

definition edges_closed :: "network \<Rightarrow> bool" where
  "edges_closed n =
     list_all (\<lambda>(u, v). u \<in> set (network_nodes n) \<and> v \<in> set (network_nodes n))
       (network_edges n)"

subsection \<open>Example data\<close>

definition gl_initial :: gl_state where
  "gl_initial =
     \<lparr> vertex_arrays = [], buffers = [], vertex_array_binding = 0, array_buffer_binding = 0,
       enabled_attribs = [], attrib_pointers = [], point_size = 1 \<rparr>"

text \<open>A mesh of one face with five vertices.\<close>

definition pentagon :: mesh where
  "pentagon =
     \<lparr> mesh_vertices = [0, 1, 2, 3, 4],
       mesh_vertex_attributes = (\<lambda>v. (real v, 0, 0)),
       mesh_edges = [(0, 1), (1, 2), (2, 3), (3, 4), (4, 0)],
       mesh_faces = [0],
       mesh_face_vertices = (\<lambda>face. [0, 1, 2, 3, 4]) \<rparr>"

text \<open>A mesh of two quadrilaterals side by side.\<close>

definition strip :: mesh where
  "strip =
     \<lparr> mesh_vertices = [0, 1, 2, 3, 4, 5],
       mesh_vertex_attributes = (\<lambda>v. (real (v mod 3), real (v div 3), 0)),
       mesh_edges = [(0, 1), (1, 2), (3, 4), (4, 5), (0, 3), (1, 4), (2, 5)],
       mesh_faces = [0, 1],
       mesh_face_vertices = (\<lambda>face. if face = 0 then [0, 1, 4, 3] else [1, 2, 5, 4]) \<rparr>"

text \<open>A network of four nodes in a row.\<close>

definition path4 :: network where
  "path4 =
     \<lparr> network_nodes = [0, 1, 2, 3],
       network_node_attributes = (\<lambda>node. (real node, 0, 0)),
       network_edges = [(0, 1), (1, 2), (2, 3)] \<rparr>"

section \<open>Properties\<close>

subsection \<open>Transform helpers\<close>

lemma half_fov: "radians f / 2 = f * pi / 360"
  by (simp add: radians_def)

lemma sin_half_fov_zero:
  "sin (radians f / 2) = 0 \<longleftrightarrow> (\<exists>k::int. f = 360 * of_int k)"
proof -
  have "(radians f / 2 = of_int k * pi) = (f = 360 * of_int k)" for k :: int
    by (simp add: half_fov field_simps)
  then show ?thesis by (simp add: sin_zero_iff_int2)
qed

lemma sin_half_fov_pos:
  assumes "0 < f" and "f < 360"
  shows "0 < sin (f * pi / 360)"
proof -
  from assms(1) have "0 < f * pi / 360" by simp
  moreover from assms(2) have "f * pi / 360 < pi" by simp
  ultimately show ?thesis by (rule sin_gt_zero)
qed

lemma sin_half_fov_nonzero:
  assumes "f \<noteq> 0" and "- 360 < f" and "f < 360"
  shows "sin (radians f / 2) \<noteq> 0"
proof (cases "0 < f")
  case True
  then have "0 < sin (f * pi / 360)" using assms(3) by (rule sin_half_fov_pos)
  then show ?thesis by (simp add: half_fov)
next
  case False
  with assms(1) have "0 < - f" by simp
  moreover from assms(2) have "- f < 360" by simp
  ultimately have "0 < sin ((- f) * pi / 360)" by (rule sin_half_fov_pos)
  then have "sin (f * pi / 360) < 0" by simp
  then show ?thesis by (simp add: half_fov)
qed

lemma perspective_divisors:
  "sin (radians f / 2) \<noteq> 0 \<Longrightarrow> a \<noteq> 0 \<Longrightarrow> n \<noteq> fr \<Longrightarrow>
   perspective f a n fr = Inr (standard_perspective f a n fr)"
  by (simp add: perspective_def standard_perspective_def from_matrix_def Let_def cot_def)

lemma cot_quarter: "cot (radians 90 / 2) = 1"
  by (simp add: radians_def cot_def cos_45 sin_45)

text \<open>
  Claim C1, as the code has it. \<open>perspective\<close> checks none of its arguments: there is
  no \<open>InvalidArgument\<close>. For a field of view inside \<open>(0, 180)\<close>, a positive aspect
  and \<open>0 < near < far\<close> it returns the standard symmetric perspective matrix. It returns
  the matrix of the same formula for any other arguments with a nonzero aspect,
  \<open>near \<noteq> far\<close> and a nonzero sine of half the field of view, which is zero exactly at
  the multiples of 360 degrees: so for every nonzero field of view between \<open>- 360\<close> and
  \<open>360\<close>, 180 among them. A field of view of zero, an aspect of zero or \<open>near = far\<close>
  raise \<open>ZeroDivisionError\<close>.
\<close>

theorem perspective_domain:
  "(0 < f \<and> f < 180 \<and> 0 < a \<and> 0 < n \<and> n < fr \<longrightarrow>
      perspective f a n fr = Inr (standard_perspective f a n fr))
   \<and> (sin (radians f / 2) \<noteq> 0 \<and> a \<noteq> 0 \<and> n \<noteq> fr \<longrightarrow>
      perspective f a n fr = Inr (standard_perspective f a n fr))
   \<and> (sin (radians f / 2) = 0 \<longleftrightarrow> (\<exists>k::int. f = 360 * of_int k))
   \<and> (f \<noteq> 0 \<and> - 360 < f \<and> f < 360 \<and> a \<noteq> 0 \<and> n \<noteq> fr \<longrightarrow>
      perspective f a n fr = Inr (standard_perspective f a n fr))
   \<and> (f = 0 \<or> a = 0 \<or> n = fr \<longrightarrow> perspective f a n fr = Inl ZeroDivisionError)"
proof (intro conjI impI)
  assume v: "0 < f \<and> f < 180 \<and> 0 < a \<and> 0 < n \<and> n < fr"
  then have "sin (radians f / 2) \<noteq> 0" by (simp add: sin_half_fov_nonzero)
  moreover from v have "a \<noteq> 0" and "n \<noteq> fr" by simp_all
  ultimately show "perspective f a n fr = Inr (standard_perspective f a n fr)"
    by (rule perspective_divisors)
next
  assume "sin (radians f / 2) \<noteq> 0 \<and> a \<noteq> 0 \<and> n \<noteq> fr"
  then show "perspective f a n fr = Inr (standard_perspective f a n fr)"
    by (simp add: perspective_divisors)
next
  show "sin (radians f / 2) = 0 \<longleftrightarrow> (\<exists>k::int. f = 360 * of_int k)"
    by (rule sin_half_fov_zero)
next
  assume v: "f \<noteq> 0 \<and> - 360 < f \<and> f < 360 \<and> a \<noteq> 0 \<and> n \<noteq> fr"
  then have "sin (radians f / 2) \<noteq> 0" by (simp add: sin_half_fov_nonzero)
  with v show "perspective f a n fr = Inr (standard_perspective f a n fr)"
    by (simp add: perspective_divisors)
next
  assume "f = 0 \<or> a = 0 \<or> n = fr"
  then show "perspective f a n fr = Inl ZeroDivisionError"
    by (auto simp add: perspective_def Let_def radians_def)
qed

text \<open>
  The theorem at a field of view of 90 degrees, the aspect 800 / 500 of the view, near
  plane 1 and far plane 100; at a field of view of 180 degrees with a negative aspect; and
  at a field of view of zero.
\<close>

theorem perspective_domain_witness:
  "perspective 90 (8 / 5) 1 100 =
     Inr [[5 / 8, 0, 0, 0], [0, 1, 0, 0], [0, 0, - (101 / 99), - (200 / 99)], [0, 0, - 1, 0]]
   \<and> perspective 180 (- 1) 1 2 = Inr (standard_perspective 180 (- 1) 1 2)
   \<and> perspective 0 (8 / 5) 1 100 = Inl ZeroDivisionError"
  using perspective_domain [of 90 "8 / 5" 1 100] perspective_domain [of 180 "- 1" 1 2]
    perspective_domain [of 0 "8 / 5" 1 100]
  by (simp add: standard_perspective_def cot_quarter)

text \<open>
  Claim C1 as stated fails: a negative aspect is outside the domain, and the call returns
  a matrix.
\<close>

theorem perspective_unguarded_counterexample:
  "perspective 90 (- 1) 1 2 =
     Inr [[- 1, 0, 0, 0], [0, 1, 0, 0], [0, 0, - 3, - 4], [0, 0, - 1, 0]]"
  by (simp add: perspective_def radians_def cos_45 sin_45 from_matrix_def)

lemma cross_parallel: "cross_vectors (scale_vector v a) (scale_vector v b) = (0, 0, 0)"
  by (cases v) simp

lemma cross_zero_left: "cross_vectors (0, 0, 0) v = (0, 0, 0)"
  by (cases v) simp

lemma normalize_scale: "\<exists>a. normalize_vector v = scale_vector v a"
proof (cases v)
  case (fields x y z)
  show ?thesis
  proof (cases "length_vector v = 0")
    case True
    then have "normalize_vector v = scale_vector v 1"
      using fields by (simp add: normalize_vector_def)
    then show ?thesis ..
  next
    case False
    then have "normalize_vector v = scale_vector v (1 / length_vector v)"
      using fields by (simp add: normalize_vector_def Let_def)
    then show ?thesis ..
  qed
qed

lemma scale_scale: "scale_vector (scale_vector v a) b = scale_vector v (a * b)"
  by (cases v) simp

lemma subtract_self: "subtract_vectors v v = (0, 0, 0)"
  by (cases v) simp

lemma normalize_zero: "normalize_vector (0, 0, 0) = (0, 0, 0)"
  by (simp add: normalize_vector_def)

lemma lookat_rows:
  assumes "cross_vectors (normalize_vector (subtract_vectors t e)) (normalize_vector u) = (0, 0, 0)"
  shows "lookat e t u =
     (case (normalize_vector (subtract_vectors t e), e) of
        ((d0, d1, d2), (e0, e1, e2)) \<Rightarrow>
          [[0, 0, 0, - e0], [0, 0, 0, - e1], [- d0, - d1, - d2, - e2], [0, 0, 0, 1]])"
  using assms
  by (cases "normalize_vector (subtract_vectors t e)"; cases e)
     (simp add: lookat_def from_matrix_def Let_def)

text \<open>
  Claim C2, as the code has it. \<open>lookat\<close> has no guard: when the target is the eye, or
  \<open>up\<close> is a multiple of the direction from the eye to the target, it returns the matrix
  whose right and up rows are zero, with the negated normalised direction in the third row
  and the negated eye in the last column.
\<close>

theorem lookat_degenerate:
  assumes "t = e \<or> u = scale_vector (subtract_vectors t e) k"
  shows "lookat e t u =
     (case (normalize_vector (subtract_vectors t e), e) of
        ((d0, d1, d2), (e0, e1, e2)) \<Rightarrow>
          [[0, 0, 0, - e0], [0, 0, 0, - e1], [- d0, - d1, - d2, - e2], [0, 0, 0, 1]])"
proof (rule lookat_rows)
  let ?w = "subtract_vectors t e"
  from assms show "cross_vectors (normalize_vector ?w) (normalize_vector u) = (0, 0, 0)"
  proof
    assume "t = e"
    then show ?thesis by (simp add: subtract_self normalize_zero cross_zero_left)
  next
    assume u: "u = scale_vector ?w k"
    obtain a where a: "normalize_vector ?w = scale_vector ?w a"
      using normalize_scale by blast
    obtain b where "normalize_vector u = scale_vector u b"
      using normalize_scale by blast
    with u have b: "normalize_vector u = scale_vector ?w (k * b)"
      by (simp add: scale_scale)
    show ?thesis unfolding a b by (rule cross_parallel)
  qed
qed

text \<open>
  The theorem at a target equal to the eye.
\<close>

theorem lookat_degenerate_witness:
  "lookat (1, 2, 3) (1, 2, 3) (0, 0, 1) =
     [[0, 0, 0, - 1], [0, 0, 0, - 2], [0, 0, 0, - 3], [0, 0, 0, 1]]"
  using lookat_degenerate [of "(1, 2, 3)" "(1, 2, 3)" "(0, 0, 1)" 0]
  by (simp add: normalize_vector_def)

text \<open>
  Claim C2 as stated fails: with \<open>up\<close> along the viewing direction the call returns a
  matrix built from a zero right vector and a zero up vector.
\<close>

theorem lookat_parallel_counterexample:
  "lookat (0, 0, 0) (0, 0, 1) (0, 0, 1) =
     [[0, 0, 0, 0], [0, 0, 0, 0], [0, 0, - 1, 0], [0, 0, 0, 1]]"
  by (simp add: lookat_def normalize_vector_def from_matrix_def Let_def)

subsection \<open>Camera\<close>

text \<open>
  Claim C5. \<open>pan\<close> adds the first component of the world-space displacement to \<open>tx\<close>,
  subtracts the second from \<open>ty\<close>, sets the first two coordinates of the target to
  \<open>- tx\<close> and \<open>- ty\<close>, and subtracts the same third component from the third
  coordinate of the target and from the distance.
\<close>

theorem pan_effect:
  "(case pan_displacement m c of (wx, wy, wz) \<Rightarrow>
      tx (pan m c) = tx c + wx
    \<and> ty (pan m c) = ty c - wy
    \<and> target (pan m c) = (- tx (pan m c), - ty (pan m c), snd (snd (target c)) - wz)
    \<and> distance (pan m c) = distance c - wz)"
  by (cases "target c") (simp add: pan_def pan_displacement_def Let_def algebra_simps)

text \<open>
  Claim C6. \<open>zoom\<close> subtracts \<open>steps * zoom_delta * distance\<close> from the distance and
  keeps the step. One step in and one step out give \<open>d * (1 - k) * (1 + k)\<close>, which is
  \<open>d * (1 - k\<^sup>2)\<close>: the drift is \<open>d * k\<^sup>2\<close>, so the result is within \<open>eps\<close> of \<open>d\<close>
  exactly when \<open>\<bar>d\<bar> * k\<^sup>2 \<le> eps\<close>.
\<close>

theorem zoom_round_trip:
  "distance (zoom steps c) = distance c - steps * zoom_delta c * distance c
   \<and> zoom_delta (zoom steps c) = zoom_delta c
   \<and> distance (zoom (- 1) (zoom 1 c)) = distance c * (1 - zoom_delta c) * (1 + zoom_delta c)
   \<and> distance (zoom (- 1) (zoom 1 c)) = distance c * (1 - (zoom_delta c)\<^sup>2)
   \<and> distance c - distance (zoom (- 1) (zoom 1 c)) = distance c * (zoom_delta c)\<^sup>2
   \<and> (\<bar>distance (zoom (- 1) (zoom 1 c)) - distance c\<bar> \<le> eps
        \<longleftrightarrow> \<bar>distance c\<bar> * (zoom_delta c)\<^sup>2 \<le> eps)"
proof -
  have d: "distance (zoom (- 1) (zoom 1 c)) = distance c * (1 - (zoom_delta c)\<^sup>2)"
    by (simp add: zoom_def algebra_simps power2_eq_square)
  have "distance (zoom (- 1) (zoom 1 c)) - distance c = - (distance c * (zoom_delta c)\<^sup>2)"
    unfolding d by (simp add: algebra_simps)
  then have a: "\<bar>distance (zoom (- 1) (zoom 1 c)) - distance c\<bar> = \<bar>distance c\<bar> * (zoom_delta c)\<^sup>2"
    by (simp add: abs_mult)
  show ?thesis unfolding a using d by (simp add: zoom_def algebra_simps power2_eq_square)
qed

lemma camera_invariant_step:
  assumes "fst (target c) = - tx c" and "fst (snd (target c)) = - ty c"
  shows "fst (target (apply_camera_op x c)) = - tx (apply_camera_op x c)
       \<and> fst (snd (target (apply_camera_op x c))) = - ty (apply_camera_op x c)"
proof (cases x)
  case (Rotate m)
  then show ?thesis using assms by (simp add: rotate_def Let_def)
next
  case (Pan m)
  then show ?thesis by (cases "target c") (simp add: pan_def Let_def)
next
  case (Zoom s)
  then show ?thesis using assms by (simp add: zoom_def)
qed

lemma camera_invariant_run:
  "fst (target c) = - tx c \<Longrightarrow> fst (snd (target c)) = - ty c \<Longrightarrow>
   fst (target (run_camera xs c)) = - tx (run_camera xs c)
   \<and> fst (snd (target (run_camera xs c))) = - ty (run_camera xs c)"
proof (induction xs arbitrary: c)
  case Nil
  then show ?case by simp
next
  case (Cons x xs)
  from camera_invariant_step [OF Cons.prems]
  have "fst (target (apply_camera_op x c)) = - tx (apply_camera_op x c)"
    and "fst (snd (target (apply_camera_op x c))) = - ty (apply_camera_op x c)"
    by simp_all
  then show ?case using Cons.IH by simp
qed

text \<open>
  Claim C8. After any sequence of rotate, pan and zoom from the camera as it is created
  with the default target, the first two coordinates of the target are \<open>- tx\<close> and
  \<open>- ty\<close>.
\<close>

theorem target_follows_translation:
  "fst (target (run_camera xs (PerspectiveCamera f n fr None d)))
     = - tx (run_camera xs (PerspectiveCamera f n fr None d))
   \<and> fst (snd (target (run_camera xs (PerspectiveCamera f n fr None d))))
     = - ty (run_camera xs (PerspectiveCamera f n fr None d))"
  by (rule camera_invariant_run) (simp_all add: PerspectiveCamera_def)

text \<open>
  Claim C9. \<open>pan\<close> leaves the distance minus the third coordinate of the target as it
  was, and does not change \<open>fov\<close>, \<open>near\<close>, \<open>far\<close>, \<open>rx\<close> and \<open>rz\<close>.
\<close>

theorem pan_frame:
  "distance (pan m c) - snd (snd (target (pan m c))) = distance c - snd (snd (target c))
   \<and> fov (pan m c) = fov c \<and> near (pan m c) = near c \<and> far (pan m c) = far c
   \<and> rx (pan m c) = rx c \<and> rz (pan m c) = rz c"
  by (cases "target c") (simp add: pan_def Let_def)

subsection \<open>Viewer.add\<close>

text \<open>
  Claim C10. When the registry has no entry for the type of the geometry object, \<open>add\<close>
  raises \<open>KeyError\<close>; no class of the registry is called and the objects of the view are
  as before.
\<close>

theorem add_unregistered:
  "registry (type_of data) = None \<Longrightarrow> add registry type_of data kwargs v = (Inl KeyError, v)"
  by (simp add: add_def)

text \<open>
  The theorem at a point cloud, a type the main block does not register, added to a view
  that holds one mesh.
\<close>

theorem add_unregistered_witness:
  "add DTYPE_OTYPE fst (Pointcloud, 7) () \<lparr>objects = [((Mesh, 1), (MeshObject_class, Mesh, 1))]\<rparr>
     = (Inl KeyError, \<lparr>objects = [((Mesh, 1), (MeshObject_class, Mesh, 1))]\<rparr>)"
  using add_unregistered [of DTYPE_OTYPE fst "(Pointcloud, 7)" "()"
      "\<lparr>objects = [((Mesh, 1), (MeshObject_class, Mesh, 1))]\<rparr>"]
  by (simp add: DTYPE_OTYPE_def)

subsection \<open>Buffers and the loops over the geometry\<close>

lemma fold_max_ge: "a \<le> fold max ns (a::nat)"
proof (induction ns arbitrary: a)
  case Nil
  show ?case by simp
next
  case (Cons n ns)
  have "a \<le> max n a" by simp
  also have "\<dots> \<le> fold max ns (max n a)" by (rule Cons.IH)
  finally show ?case by simp
qed

lemma fold_max_upper: "x \<in> set ns \<Longrightarrow> x \<le> fold max ns (a::nat)"
proof (induction ns arbitrary: a)
  case Nil
  then show ?case by simp
next
  case (Cons n ns)
  show ?case
  proof (cases "x = n")
    case True
    have "x \<le> max n a" using True by simp
    also have "\<dots> \<le> fold max ns (max n a)" by (rule fold_max_ge)
    finally show ?thesis by simp
  next
    case False
    with Cons.prems have "x \<in> set ns" by simp
    then show ?thesis using Cons.IH by simp
  qed
qed

lemma fresh_name_new: "fresh_name ns \<notin> set ns"
proof
  assume "fresh_name ns \<in> set ns"
  then have "fresh_name ns \<le> fold max ns 0" by (rule fold_max_upper)
  then show False by (simp add: fresh_name_def)
qed

lemma map_unbound: "n \<notin> fst ` set bs \<Longrightarrow>
  map (\<lambda>(k, d). if k = n then (k, c) else (k, d)) bs = bs"
  by (induction bs) auto

lemma make_vertex_buffer_eq:
  "make_vertex_buffer data g =
     (fresh_name (map fst (buffers g)),
      g\<lparr>buffers := buffers g @ [(fresh_name (map fst (buffers g)), data)],
        array_buffer_binding := fresh_name (map fst (buffers g))\<rparr>)"
proof -
  have "fresh_name (map fst (buffers g)) \<notin> fst ` set (buffers g)"
    using fresh_name_new [of "map fst (buffers g)"] by simp
  then show ?thesis
    by (simp add: make_vertex_buffer_def glGenBuffers_def glBindBuffer_def glBufferData_def
        Let_def map_unbound)
qed

lemma map_of_fresh: "n \<notin> fst ` set bs \<Longrightarrow> map_of (bs @ [(n, d)]) n = Some d"
  by (simp add: map_of_eq_None_iff [THEN iffD2] map_add_def)

lemma map_of_older: "n \<noteq> n' \<Longrightarrow> map_of (bs @ [(n', d)]) n = map_of bs n"
  by (simp add: map_add_def split: option.splits)

lemma upload_pass_eq:
  "\<exists>p g'. upload_pass vs cs g = (Inr p, g')
     \<and> buffer_data g' (vertices p) = Some (flatten vs)
     \<and> buffer_data g' (colors p) = Some (flatten cs)
     \<and> vertex_arrays g' = vertex_arrays g
     \<and> length (buffers g') = length (buffers g) + 2"
proof -
  define n1 where "n1 = fresh_name (map fst (buffers g))"
  define b1 where "b1 = buffers g @ [(n1, flatten vs)]"
  define n2 where "n2 = fresh_name (map fst b1)"
  define g' where "g' = g\<lparr>buffers := b1 @ [(n2, flatten cs)], array_buffer_binding := n2\<rparr>"
  have up: "upload_pass vs cs g = (Inr \<lparr>vertices = n1, colors = n2\<rparr>, g')"
    by (simp add: upload_pass_def make_vertex_buffer_eq n1_def b1_def n2_def g'_def)
  have f1: "n1 \<notin> fst ` set (buffers g)"
    using fresh_name_new [of "map fst (buffers g)"] by (simp add: n1_def)
  have f2: "n2 \<notin> fst ` set b1"
    using fresh_name_new [of "map fst b1"] by (simp add: n2_def)
  have "n1 \<in> fst ` set b1" by (simp add: b1_def)
  with f2 have ne: "n1 \<noteq> n2" by auto
  have "map_of (b1 @ [(n2, flatten cs)]) n1 = map_of b1 n1"
    using ne by (rule map_of_older)
  also have "\<dots> = Some (flatten vs)" unfolding b1_def using f1 by (rule map_of_fresh)
  finally have d1: "buffer_data g' n1 = Some (flatten vs)"
    by (simp add: buffer_data_def g'_def)
  have d2: "buffer_data g' n2 = Some (flatten cs)"
    using map_of_fresh [OF f2] by (simp add: buffer_data_def g'_def)
  have "vertex_arrays g' = vertex_arrays g" by (simp add: g'_def)
  moreover have "length (buffers g') = length (buffers g) + 2" by (simp add: g'_def b1_def)
  ultimately show ?thesis using up d1 d2 by simp
qed

lemma map_of_keys: "k \<in> set ks \<Longrightarrow> map_of (map (\<lambda>k. (k, f k)) ks) k = Some (f k)"
  by (induction ks) auto

lemma getitems_keys:
  "set ks \<subseteq> set vs \<Longrightarrow> getitems (map_of (map (\<lambda>k. (k, f k)) vs)) ks = Inr (map f ks)"
  by (induction ks) (simp_all add: map_of_keys)

lemma nodes_loop_keys:
  "set ns \<subseteq> set vs \<Longrightarrow>
   nodes_loop (map_of (map (\<lambda>k. (k, f k)) vs)) color ns (a, c) =
     Inr (a @ map f ns, c @ replicate (length ns) color)"
proof (induction ns arbitrary: a c)
  case Nil
  show ?case by simp
next
  case (Cons n ns)
  then have "set [n] \<subseteq> set vs" and "set ns \<subseteq> set vs" by simp_all
  then show ?case using Cons.IH
    by (simp add: getitems_keys replicate_append_same del: getitems.simps)
qed

lemma edges_loop_keys:
  "\<forall>(u, v) \<in> set es. u \<in> set vs \<and> v \<in> set vs \<Longrightarrow>
   edges_loop (map_of (map (\<lambda>k. (k, f k)) vs)) color es (a, c) =
     Inr (a @ concat (map (\<lambda>(u, v). [f u, f v]) es), c @ replicate (2 * length es) color)"
proof (induction es arbitrary: a c)
  case Nil
  show ?case by simp
next
  case (Cons e es)
  obtain u v where e: "e = (u, v)" by (cases e)
  from Cons.prems e have "set [u, v] \<subseteq> set vs" by simp
  then have g: "getitems (map_of (map (\<lambda>k. (k, f k)) vs)) [u, v] = Inr (map f [u, v])"
    by (rule getitems_keys)
  from Cons.prems have "\<forall>(u, v) \<in> set es. u \<in> set vs \<and> v \<in> set vs" by simp
  then show ?case using g e Cons.IH
    by (simp add: replicate_append_same del: getitems.simps)
qed

lemma vertex_xyz_vao: "vertex_xyz (obj\<lparr>m_vao := x\<rparr>) = vertex_xyz obj"
  by (simp add: vertex_xyz_def)

lemma length_three: "length vs = 3 \<Longrightarrow> \<exists>a b c. vs = [a, b, c]"
  by (auto simp add: numeral_3_eq_3 length_Suc_conv)

lemma length_four: "length vs = 4 \<Longrightarrow> \<exists>a b c d. vs = [a, b, c, d]"
proof -
  assume "length vs = 4"
  then have "length vs = Suc (Suc (Suc (Suc 0)))" by simp
  then show ?thesis by (auto simp add: length_Suc_conv)
qed

lemma face_body_other:
  "length vs \<noteq> 3 \<Longrightarrow> length vs \<noteq> 4 \<Longrightarrow> face_body xyzs color vs acc = Inl NotImplementedError"
  by (cases "(xyzs, color, vs, acc)" rule: face_body.cases) simp_all

lemma face_body_keys:
  assumes "set vs \<subseteq> set ks" and "length vs = 3 \<or> length vs = 4"
  shows "face_body (map_of (map (\<lambda>k. (k, f k)) ks)) color vs (a, c) =
     Inr (a @ map f (corners (triangles vs)), c @ replicate (3 * length (triangles vs)) color)"
  using assms(2)
proof
  assume "length vs = 3"
  then obtain x y z where vs: "vs = [x, y, z]" using length_three by blast
  with assms(1) have "set [x, y, z] \<subseteq> set ks" by simp
  then have "getitems (map_of (map (\<lambda>k. (k, f k)) ks)) [x, y, z] = Inr (map f [x, y, z])"
    by (rule getitems_keys)
  then show ?thesis using vs by (simp add: numeral_3_eq_3 del: getitems.simps)
next
  assume "length vs = 4"
  then obtain x y z w where vs: "vs = [x, y, z, w]" using length_four by blast
  with assms(1) have "set [x, y, z, x, z, w] \<subseteq> set ks" by simp
  then have "getitems (map_of (map (\<lambda>k. (k, f k)) ks)) [x, y, z, x, z, w] =
      Inr (map f [x, y, z, x, z, w])"
    by (rule getitems_keys)
  then show ?thesis using vs by (simp add: eval_nat_numeral del: getitems.simps)
qed

lemma corners_append: "corners (ts @ us) = corners ts @ corners us"
  by (induction ts rule: corners.induct) simp_all

lemma front_loop_keys:
  assumes "\<forall>face \<in> set fs. set (mesh_face_vertices m face) \<subseteq> set ks
      \<and> (length (mesh_face_vertices m face) = 3 \<or> length (mesh_face_vertices m face) = 4)"
  shows "front_loop m (map_of (map (\<lambda>k. (k, f k)) ks)) color fs (a, c) =
     Inr (a @ map f (corners (concat (map (\<lambda>face. triangles (mesh_face_vertices m face)) fs))),
          c @ replicate (3 * length (concat (map (\<lambda>face. triangles (mesh_face_vertices m face)) fs))) color)"
  using assms
proof (induction fs arbitrary: a c)
  case Nil
  show ?case by simp
next
  case (Cons face fs)
  let ?vs = "mesh_face_vertices m face"
  from Cons.prems have "set ?vs \<subseteq> set ks" and "length ?vs = 3 \<or> length ?vs = 4"
    by simp_all
  then have b: "face_body (map_of (map (\<lambda>k. (k, f k)) ks)) color ?vs (a, c) =
     Inr (a @ map f (corners (triangles ?vs)), c @ replicate (3 * length (triangles ?vs)) color)"
    by (rule face_body_keys)
  from Cons.prems have "\<forall>face \<in> set fs. set (mesh_face_vertices m face) \<subseteq> set ks
      \<and> (length (mesh_face_vertices m face) = 3 \<or> length (mesh_face_vertices m face) = 4)"
    by simp
  from Cons.IH [OF this] show ?case
    by (simp add: b corners_append replicate_add [symmetric] distrib_left)
qed

lemma back_loop_keys:
  assumes "\<forall>face \<in> set fs. set (mesh_face_vertices m face) \<subseteq> set ks
      \<and> (length (mesh_face_vertices m face) = 3 \<or> length (mesh_face_vertices m face) = 4)"
  shows "back_loop m (map_of (map (\<lambda>k. (k, f k)) ks)) color fs (a, c) =
     Inr (a @ map f (corners (concat (map (\<lambda>face. triangles (rev (mesh_face_vertices m face))) fs))),
          c @ replicate (3 * length (concat (map (\<lambda>face. triangles (rev (mesh_face_vertices m face))) fs))) color)"
  using assms
proof (induction fs arbitrary: a c)
  case Nil
  show ?case by simp
next
  case (Cons face fs)
  let ?vs = "rev (mesh_face_vertices m face)"
  from Cons.prems have "set ?vs \<subseteq> set ks" and "length ?vs = 3 \<or> length ?vs = 4"
    by simp_all
  then have b: "face_body (map_of (map (\<lambda>k. (k, f k)) ks)) color ?vs (a, c) =
     Inr (a @ map f (corners (triangles ?vs)), c @ replicate (3 * length (triangles ?vs)) color)"
    by (rule face_body_keys)
  from Cons.prems have "\<forall>face \<in> set fs. set (mesh_face_vertices m face) \<subseteq> set ks
      \<and> (length (mesh_face_vertices m face) = 3 \<or> length (mesh_face_vertices m face) = 4)"
    by simp
  from Cons.IH [OF this] show ?case
    by (simp add: b corners_append replicate_add [symmetric] distrib_left)
qed

lemma front_loop_other:
  assumes "\<forall>face \<in> set fs. set (mesh_face_vertices m face) \<subseteq> set ks"
    and "bad \<in> set fs"
    and "length (mesh_face_vertices m bad) \<noteq> 3" and "length (mesh_face_vertices m bad) \<noteq> 4"
  shows "front_loop m (map_of (map (\<lambda>k. (k, f k)) ks)) color fs acc = Inl NotImplementedError"
  using assms(1,2)
proof (induction fs arbitrary: acc)
  case Nil
  then show ?case by simp
next
  case (Cons face fs)
  let ?vs = "mesh_face_vertices m face"
  show ?case
  proof (cases "length ?vs = 3 \<or> length ?vs = 4")
    case False
    then have "face_body (map_of (map (\<lambda>k. (k, f k)) ks)) color ?vs acc = Inl NotImplementedError"
      by (simp add: face_body_other)
    then show ?thesis by simp
  next
    case True
    obtain a c where acc: "acc = (a, c)" by (cases acc)
    from Cons.prems have "set ?vs \<subseteq> set ks" by simp
    from face_body_keys [OF this True]
    have b: "face_body (map_of (map (\<lambda>k. (k, f k)) ks)) color ?vs (a, c) =
       Inr (a @ map f (corners (triangles ?vs)), c @ replicate (3 * length (triangles ?vs)) color)" .
    from True assms(3,4) have "bad \<noteq> face" by auto
    with Cons.prems have "bad \<in> set fs" and "\<forall>face \<in> set fs. set (mesh_face_vertices m face) \<subseteq> set ks"
      by simp_all
    then show ?thesis using Cons.IH by (simp add: acc b)
  qed
qed

lemma back_loop_other:
  assumes "\<forall>face \<in> set fs. set (mesh_face_vertices m face) \<subseteq> set ks"
    and "bad \<in> set fs"
    and "length (mesh_face_vertices m bad) \<noteq> 3" and "length (mesh_face_vertices m bad) \<noteq> 4"
  shows "back_loop m (map_of (map (\<lambda>k. (k, f k)) ks)) color fs acc = Inl NotImplementedError"
  using assms(1,2)
proof (induction fs arbitrary: acc)
  case Nil
  then show ?case by simp
next
  case (Cons face fs)
  let ?vs = "rev (mesh_face_vertices m face)"
  show ?case
  proof (cases "length ?vs = 3 \<or> length ?vs = 4")
    case False
    then have "face_body (map_of (map (\<lambda>k. (k, f k)) ks)) color ?vs acc = Inl NotImplementedError"
      by (simp add: face_body_other)
    then show ?thesis by simp
  next
    case True
    obtain a c where acc: "acc = (a, c)" by (cases acc)
    from Cons.prems have "set ?vs \<subseteq> set ks" by simp
    from face_body_keys [OF this True]
    have b: "face_body (map_of (map (\<lambda>k. (k, f k)) ks)) color ?vs (a, c) =
       Inr (a @ map f (corners (triangles ?vs)), c @ replicate (3 * length (triangles ?vs)) color)" .
    from True assms(3,4) have "bad \<noteq> face" by auto
    with Cons.prems have "bad \<in> set fs" and "\<forall>face \<in> set fs. set (mesh_face_vertices m face) \<subseteq> set ks"
      by simp_all
    then show ?thesis using Cons.IH by (simp add: acc b)
  qed
qed

lemma faces_closed_iff:
  "faces_closed m \<longleftrightarrow>
     (\<forall>face \<in> set (mesh_faces m). set (mesh_face_vertices m face) \<subseteq> set (mesh_vertices m))"
  by (auto simp add: faces_closed_def list_all_iff)

lemma edges_closed_iff:
  "edges_closed n \<longleftrightarrow>
     (\<forall>(u, v) \<in> set (network_edges n). u \<in> set (network_nodes n) \<and> v \<in> set (network_nodes n))"
  by (simp add: edges_closed_def list_all_iff)

lemma triangles_length:
  "length (triangles vs) = (if length vs = 3 then 1 else if length vs = 4 then 2 else 0)"
  by (cases vs rule: triangles.cases) simp_all

lemma quads_triangles_length:
  "\<forall>face \<in> set fs. length (fv face) = 4 \<Longrightarrow>
   length (concat (map (\<lambda>face. triangles (fv face)) fs)) = 2 * length fs"
  by (induction fs) (simp_all add: triangles_length)

lemma rev_triangles_length:
  "length (concat (map (\<lambda>face. triangles (rev (fv face))) fs)) =
   length (concat (map (\<lambda>face. triangles (fv face)) fs))"
  by (induction fs) (simp_all add: triangles_length)

lemma MeshObject_front_other:
  assumes "faces_closed (m_mesh obj)" and "bad \<in> set (mesh_faces (m_mesh obj))"
    and "length (mesh_face_vertices (m_mesh obj) bad) \<noteq> 3"
    and "length (mesh_face_vertices (m_mesh obj) bad) \<noteq> 4"
  shows "MeshObject_front obj g = (Inl NotImplementedError, g)"
proof -
  from assms(1) have "\<forall>face \<in> set (mesh_faces (m_mesh obj)).
      set (mesh_face_vertices (m_mesh obj) face) \<subseteq> set (mesh_vertices (m_mesh obj))"
    by (simp add: faces_closed_iff)
  from front_loop_other [OF this assms(2,3,4)] show ?thesis
    by (simp add: MeshObject_front_def vertex_xyz_def)
qed

lemma MeshObject_back_other:
  assumes "faces_closed (m_mesh obj)" and "bad \<in> set (mesh_faces (m_mesh obj))"
    and "length (mesh_face_vertices (m_mesh obj) bad) \<noteq> 3"
    and "length (mesh_face_vertices (m_mesh obj) bad) \<noteq> 4"
  shows "MeshObject_back obj g = (Inl NotImplementedError, g)"
proof -
  from assms(1) have "\<forall>face \<in> set (mesh_faces (m_mesh obj)).
      set (mesh_face_vertices (m_mesh obj) face) \<subseteq> set (mesh_vertices (m_mesh obj))"
    by (simp add: faces_closed_iff)
  from back_loop_other [OF this assms(2,3,4)] show ?thesis
    by (simp add: MeshObject_back_def vertex_xyz_def)
qed

lemma MeshObject_init_front_error:
  assumes "\<And>x g. MeshObject_front (obj\<lparr>m_vao := x\<rparr>) g = (Inl e, g)"
  shows "fst (MeshObject_init obj g) = Inl e
    \<and> buffers (snd (snd (MeshObject_init obj g))) = buffers g
    \<and> (\<exists>a b c d. vertex_arrays (snd (snd (MeshObject_init obj g))) = vertex_arrays g @ [a, b, c, d])"
  by (simp add: MeshObject_init_def glGenVertexArrays_def Let_def init_pass_def gl_bind_def
      gl_call_def glBindVertexArray_def glEnableVertexAttribArray_def assms)

lemma MeshObject_front_buffer:
  assumes "faces_closed (m_mesh obj)"
    and "\<forall>face \<in> set (mesh_faces (m_mesh obj)).
          length (mesh_face_vertices (m_mesh obj) face) = 3
        \<or> length (mesh_face_vertices (m_mesh obj) face) = 4"
  shows "\<exists>p g'. MeshObject_front obj g = (Inr p, g')
     \<and> buffer_data g' (vertices p) =
         Some (flatten (map (mesh_vertex_attributes (m_mesh obj))
                 (corners (front_triangles (m_mesh obj)))))"
proof -
  let ?m = "m_mesh obj"
  from assms have "\<forall>face \<in> set (mesh_faces ?m).
      set (mesh_face_vertices ?m face) \<subseteq> set (mesh_vertices ?m)
      \<and> (length (mesh_face_vertices ?m face) = 3 \<or> length (mesh_face_vertices ?m face) = 4)"
    by (simp add: faces_closed_iff)
  from front_loop_keys [OF this, of "mesh_vertex_attributes ?m" default_color_front "[]" "[]"]
  obtain cs where "MeshObject_front obj g =
      upload_pass (map (mesh_vertex_attributes ?m) (corners (front_triangles ?m))) cs g"
    by (simp add: MeshObject_front_def vertex_xyz_def front_triangles_def)
  then show ?thesis
    using upload_pass_eq [of "map (mesh_vertex_attributes ?m) (corners (front_triangles ?m))" cs g]
    by auto
qed

lemma MeshObject_back_buffer:
  assumes "faces_closed (m_mesh obj)"
    and "\<forall>face \<in> set (mesh_faces (m_mesh obj)).
          length (mesh_face_vertices (m_mesh obj) face) = 3
        \<or> length (mesh_face_vertices (m_mesh obj) face) = 4"
  shows "\<exists>p g'. MeshObject_back obj g = (Inr p, g')
     \<and> buffer_data g' (vertices p) =
         Some (flatten (map (mesh_vertex_attributes (m_mesh obj))
                 (corners (back_triangles (m_mesh obj)))))"
proof -
  let ?m = "m_mesh obj"
  from assms have "\<forall>face \<in> set (mesh_faces ?m).
      set (mesh_face_vertices ?m face) \<subseteq> set (mesh_vertices ?m)
      \<and> (length (mesh_face_vertices ?m face) = 3 \<or> length (mesh_face_vertices ?m face) = 4)"
    by (simp add: faces_closed_iff)
  from back_loop_keys [OF this, of "mesh_vertex_attributes ?m" default_color_back "[]" "[]"]
  obtain cs where "MeshObject_back obj g =
      upload_pass (map (mesh_vertex_attributes ?m) (corners (back_triangles ?m))) cs g"
    by (simp add: MeshObject_back_def vertex_xyz_def back_triangles_def)
  then show ?thesis
    using upload_pass_eq [of "map (mesh_vertex_attributes ?m) (corners (back_triangles ?m))" cs g]
    by auto
qed

lemma strip_front: "front_triangles strip = [(0, 1, 4), (0, 4, 3), (1, 2, 5), (1, 5, 4)]"
  by (simp add: front_triangles_def strip_def)

lemma strip_back: "back_triangles strip = [(3, 4, 1), (3, 1, 0), (4, 5, 2), (4, 2, 1)]"
  by (simp add: back_triangles_def strip_def)

lemma edge_ends_length: "length (concat (map (\<lambda>(u, v). [f u, f v]) es)) = 2 * length es"
  by (induction es) auto

subsection \<open>NetworkObject and MeshObject\<close>

text \<open>
  Claim C7. For a network of four nodes and three edges, the buffer of positions that the
  \<open>nodes\<close> property uploads holds the coordinates of the four nodes, one entry per node,
  and the one that the \<open>edges\<close> property uploads holds six entries: the coordinates of
  the two ends of each edge.
\<close>

theorem network_buffers:
  assumes "length (network_nodes (n_data obj)) = 4"
    and "length (network_edges (n_data obj)) = 3"
    and "edges_closed (n_data obj)"
  shows "(\<exists>p g' ps. NetworkObject_nodes obj g = (Inr p, g')
       \<and> buffer_data g' (vertices p) = Some (flatten ps)
       \<and> ps = map (network_node_attributes (n_data obj)) (network_nodes (n_data obj))
       \<and> length ps = 4)
    \<and> (\<exists>p g' ps. NetworkObject_edges obj g = (Inr p, g')
       \<and> buffer_data g' (vertices p) = Some (flatten ps)
       \<and> ps = concat (map (\<lambda>(u, v). [network_node_attributes (n_data obj) u,
                                       network_node_attributes (n_data obj) v])
                  (network_edges (n_data obj)))
       \<and> length ps = 6)"
proof
  let ?n = "n_data obj"
  let ?f = "network_node_attributes ?n"
  have "set (network_nodes ?n) \<subseteq> set (network_nodes ?n)" by simp
  from nodes_loop_keys [OF this, of ?f default_color_nodes "[]" "[]"]
  obtain cs where "NetworkObject_nodes obj g = upload_pass (map ?f (network_nodes ?n)) cs g"
    by (simp add: NetworkObject_nodes_def node_xyz_def)
  then show "\<exists>p g' ps. NetworkObject_nodes obj g = (Inr p, g')
       \<and> buffer_data g' (vertices p) = Some (flatten ps)
       \<and> ps = map ?f (network_nodes ?n) \<and> length ps = 4"
    using upload_pass_eq [of "map ?f (network_nodes ?n)" cs g] assms(1) by auto
next
  let ?n = "n_data obj"
  let ?f = "network_node_attributes ?n"
  let ?ps = "concat (map (\<lambda>(u, v). [?f u, ?f v]) (network_edges ?n))"
  from assms(3) have "\<forall>(u, v) \<in> set (network_edges ?n).
      u \<in> set (network_nodes ?n) \<and> v \<in> set (network_nodes ?n)"
    by (simp add: edges_closed_iff)
  from edges_loop_keys [OF this, of ?f network_default_color_edges "[]" "[]"]
  obtain cs where u: "NetworkObject_edges obj g = upload_pass ?ps cs g"
    by (simp add: NetworkObject_edges_def node_xyz_def)
  have "length ?ps = 6" using assms(2) by (simp add: edge_ends_length)
  then show "\<exists>p g' ps. NetworkObject_edges obj g = (Inr p, g')
       \<and> buffer_data g' (vertices p) = Some (flatten ps)
       \<and> ps = ?ps \<and> length ps = 6"
    using upload_pass_eq [of ?ps cs g] u by auto
qed

text \<open>
  The theorem at the network of four nodes in a row.
\<close>

theorem network_buffers_witness:
  "(\<exists>p g'. NetworkObject_nodes (NetworkObject path4 None False True True) gl_initial = (Inr p, g')
       \<and> buffer_data g' (vertices p) = Some [0, 0, 0, 1, 0, 0, 2, 0, 0, 3, 0, 0])
   \<and> (\<exists>p g'. NetworkObject_edges (NetworkObject path4 None False True True) gl_initial = (Inr p, g')
       \<and> buffer_data g' (vertices p) =
           Some [0, 0, 0, 1, 0, 0, 1, 0, 0, 2, 0, 0, 2, 0, 0, 3, 0, 0])"
proof -
  have n: "n_data (NetworkObject path4 None False True True) = path4"
    by (simp add: NetworkObject_def)
  have l: "length (network_nodes path4) = 4" "length (network_edges path4) = 3"
    by (simp_all add: path4_def)
  have c: "edges_closed path4" by (simp add: edges_closed_def path4_def)
  note t = network_buffers [of "NetworkObject path4 None False True True" gl_initial,
      unfolded n, OF l c]
  show ?thesis
    using t by (simp add: path4_def)
qed

text \<open>
  Claim C4. For a mesh whose faces all have three or four vertices, the front pass
  uploads the corners of the triangles of the triangulation policy, a quadrilateral
  \<open>(a, b, c, d)\<close> giving \<open>(a, b, c)\<close> and \<open>(a, c, d)\<close>; the back pass uploads those of the same
  faces with their vertices in reverse order, as many triangles as the front pass; and
  when all faces are quadrilaterals both passes have twice as many triangles as the mesh
  has faces.
\<close>

theorem faces_triangulated:
  assumes "faces_closed (m_mesh obj)"
    and "\<forall>face \<in> set (mesh_faces (m_mesh obj)).
          length (mesh_face_vertices (m_mesh obj) face) = 3
        \<or> length (mesh_face_vertices (m_mesh obj) face) = 4"
  shows "(\<exists>p g'. MeshObject_front obj g = (Inr p, g')
       \<and> buffer_data g' (vertices p) =
           Some (flatten (map (mesh_vertex_attributes (m_mesh obj))
                   (corners (front_triangles (m_mesh obj))))))
    \<and> (\<exists>p g'. MeshObject_back obj g = (Inr p, g')
       \<and> buffer_data g' (vertices p) =
           Some (flatten (map (mesh_vertex_attributes (m_mesh obj))
                   (corners (back_triangles (m_mesh obj))))))
    \<and> back_triangles (m_mesh obj) =
        front_triangles ((m_mesh obj)\<lparr>mesh_face_vertices := (\<lambda>face. rev (mesh_face_vertices (m_mesh obj) face))\<rparr>)
    \<and> length (back_triangles (m_mesh obj)) = length (front_triangles (m_mesh obj))
    \<and> ((\<forall>face \<in> set (mesh_faces (m_mesh obj)). length (mesh_face_vertices (m_mesh obj) face) = 4)
        \<longrightarrow> length (front_triangles (m_mesh obj)) = 2 * length (mesh_faces (m_mesh obj))
          \<and> length (back_triangles (m_mesh obj)) = 2 * length (mesh_faces (m_mesh obj)))"
proof (intro conjI impI)
  show "\<exists>p g'. MeshObject_front obj g = (Inr p, g')
       \<and> buffer_data g' (vertices p) =
           Some (flatten (map (mesh_vertex_attributes (m_mesh obj))
                   (corners (front_triangles (m_mesh obj)))))"
    using assms by (rule MeshObject_front_buffer)
  show "\<exists>p g'. MeshObject_back obj g = (Inr p, g')
       \<and> buffer_data g' (vertices p) =
           Some (flatten (map (mesh_vertex_attributes (m_mesh obj))
                   (corners (back_triangles (m_mesh obj)))))"
    using assms by (rule MeshObject_back_buffer)
  show "back_triangles (m_mesh obj) =
        front_triangles ((m_mesh obj)\<lparr>mesh_face_vertices := (\<lambda>face. rev (mesh_face_vertices (m_mesh obj) face))\<rparr>)"
    by (simp add: back_triangles_def front_triangles_def)
  show "length (back_triangles (m_mesh obj)) = length (front_triangles (m_mesh obj))"
    unfolding back_triangles_def front_triangles_def by (rule rev_triangles_length)
next
  assume q: "\<forall>face \<in> set (mesh_faces (m_mesh obj)). length (mesh_face_vertices (m_mesh obj) face) = 4"
  then show "length (front_triangles (m_mesh obj)) = 2 * length (mesh_faces (m_mesh obj))"
    unfolding front_triangles_def by (rule quads_triangles_length)
  from q show "length (back_triangles (m_mesh obj)) = 2 * length (mesh_faces (m_mesh obj))"
    unfolding back_triangles_def front_triangles_def
    by (simp add: rev_triangles_length quads_triangles_length)
qed

text \<open>
  The theorem at the mesh of two quadrilaterals.
\<close>

theorem faces_triangulated_witness:
  "(\<exists>p g'. MeshObject_front (MeshObject strip None False True True True) gl_initial = (Inr p, g')
       \<and> buffer_data g' (vertices p) =
           Some [0, 0, 0, 1, 0, 0, 1, 1, 0, 0, 0, 0, 1, 1, 0, 0, 1, 0,
                 1, 0, 0, 2, 0, 0, 2, 1, 0, 1, 0, 0, 2, 1, 0, 1, 1, 0])
   \<and> (\<exists>p g'. MeshObject_back (MeshObject strip None False True True True) gl_initial = (Inr p, g')
       \<and> buffer_data g' (vertices p) =
           Some [0, 1, 0, 1, 1, 0, 1, 0, 0, 0, 1, 0, 1, 0, 0, 0, 0, 0,
                 1, 1, 0, 2, 1, 0, 2, 0, 0, 1, 1, 0, 2, 0, 0, 1, 0, 0])
   \<and> length (front_triangles strip) = 4 \<and> length (back_triangles strip) = 4"
proof -
  have m: "m_mesh (MeshObject strip None False True True True) = strip"
    by (simp add: MeshObject_def)
  have c: "faces_closed strip" by (simp add: faces_closed_def strip_def)
  have l: "\<forall>face \<in> set (mesh_faces strip).
      length (mesh_face_vertices strip face) = 3 \<or> length (mesh_face_vertices strip face) = 4"
    by (simp add: strip_def)
  have a: "mesh_vertex_attributes strip = (\<lambda>v. (real (v mod 3), real (v div 3), 0))"
    by (simp add: strip_def)
  note t = faces_triangulated [of "MeshObject strip None False True True True" gl_initial,
      unfolded m, OF c l]
  show ?thesis
    using t [THEN conjunct1] t [THEN conjunct2, THEN conjunct1]
    by (simp add: strip_front strip_back a)
qed

text \<open>
  Claim C3, as the code has it. For a mesh with a face of neither three nor four vertices,
  the \<open>front\<close> and \<open>back\<close> properties raise \<open>NotImplementedError\<close> and leave the OpenGL
  state as it was, and \<open>init\<close> fails with that error having allocated no buffer; the four
  vertex-array objects that \<open>init\<close> generates first stay allocated.
\<close>

theorem init_unsupported_face:
  assumes "faces_closed (m_mesh obj)" and "bad \<in> set (mesh_faces (m_mesh obj))"
    and "length (mesh_face_vertices (m_mesh obj) bad) \<noteq> 3"
    and "length (mesh_face_vertices (m_mesh obj) bad) \<noteq> 4"
  shows "MeshObject_front obj g = (Inl NotImplementedError, g)
    \<and> MeshObject_back obj g = (Inl NotImplementedError, g)
    \<and> fst (MeshObject_init obj g) = Inl NotImplementedError
    \<and> buffers (snd (snd (MeshObject_init obj g))) = buffers g
    \<and> (\<exists>a b c d. vertex_arrays (snd (snd (MeshObject_init obj g))) = vertex_arrays g @ [a, b, c, d])"
proof -
  have "\<And>x g. MeshObject_front (obj\<lparr>m_vao := x\<rparr>) g = (Inl NotImplementedError, g)"
    by (rule MeshObject_front_other [where bad = bad]) (simp_all add: assms)
  from MeshObject_init_front_error [OF this, of g]
  show ?thesis
    using MeshObject_front_other [OF assms, of g] MeshObject_back_other [OF assms, of g]
    by simp
qed

text \<open>
  The theorem at the mesh of one five-sided face, in the initial OpenGL state.
\<close>

theorem init_unsupported_face_witness:
  "MeshObject_front (MeshObject pentagon None False True True True) gl_initial
     = (Inl NotImplementedError, gl_initial)
   \<and> buffers (snd (snd (MeshObject_init (MeshObject pentagon None False True True True) gl_initial)))
     = []"
  using init_unsupported_face [of "MeshObject pentagon None False True True True" 0 gl_initial]
  by (simp add: MeshObject_def pentagon_def faces_closed_def gl_initial_def)

text \<open>
  Claim C3 as stated fails in its last part: after the failed \<open>init\<close> of the five-sided
  face the four vertex-array objects are allocated.
\<close>

theorem init_leaves_vertex_arrays_counterexample:
  "fst (MeshObject_init (MeshObject pentagon None False True True True) gl_initial)
     = Inl NotImplementedError
   \<and> vertex_arrays (snd (snd (MeshObject_init (MeshObject pentagon None False True True True)
        gl_initial))) = [1, 2, 3, 4]"
  by (simp add: MeshObject_init_def glGenVertexArrays_def Let_def init_pass_def gl_bind_def
      gl_call_def glBindVertexArray_def glEnableVertexAttribArray_def MeshObject_front_def
      MeshObject_def pentagon_def gl_initial_def fresh_name_def)

end
